theory Spec2Isabelle
  imports Complex_Main "HOL-Library.Product_Lexorder" "HOL-Library.Option_ord"
begin

section \<open>Data model of backend/server.py\<close>

text \<open>
  Python floats are idealised as real numbers (no rounding, no NaN, no infinity).
  A datetime is the record of its calendar fields; all datetimes are taken in UTC, as
  \<^verbatim>\<open>datetime.now(timezone.utc)\<close> produces them. The document store keeps datetimes
  as ISO-8601 strings and compares the strings; the model keeps the datetime and
  compares chronologically, which is the same order on the UTC strings the server writes.
\<close>

record datetime =
  year :: int
  month :: int
  day :: int
  hour :: int
  minute :: int
  second :: int
  microsecond :: int

type_synonym dt_key = "int \<times> int \<times> int \<times> int \<times> int \<times> int \<times> int"

definition dt_key :: "datetime \<Rightarrow> dt_key" where
  "dt_key d = (year d, month d, day d, hour d, minute d, second d, microsecond d)"

text \<open>\<^verbatim>\<open>dt.date()\<close>: the calendar day of a datetime.\<close>

definition date_of :: "datetime \<Rightarrow> int \<times> int \<times> int" where
  "date_of d = (year d, month d, day d)"

definition is_leap :: "int \<Rightarrow> bool" where
  "is_leap y = (if y mod 400 = 0 then True else if y mod 100 = 0 then False else y mod 4 = 0)"

definition days_in_month :: "int \<Rightarrow> int \<Rightarrow> int" where
  "days_in_month y m =
     (if m = 2 then (if is_leap y then 29 else 28)
      else if m = 4 \<or> m = 6 \<or> m = 9 \<or> m = 11 then 30 else 31)"

text \<open>\<^verbatim>\<open>dt - timedelta(days=1)\<close> and \<^verbatim>\<open>dt - timedelta(days=n)\<close>.\<close>

definition minus_one_day :: "datetime \<Rightarrow> datetime" where
  "minus_one_day d =
     (if 1 < day d then d\<lparr>day := day d - 1\<rparr>
      else if 1 < month d
        then d\<lparr>month := month d - 1, day := days_in_month (year d) (month d - 1)\<rparr>
      else d\<lparr>year := year d - 1, month := 12, day := 31\<rparr>)"

fun minus_days :: "datetime \<Rightarrow> nat \<Rightarrow> datetime" where
  "minus_days d 0 = d"
| "minus_days d (Suc n) = minus_days (minus_one_day d) n"

text \<open>\<^verbatim>\<open>dt + timedelta(days=1)\<close> and \<^verbatim>\<open>dt + timedelta(days=n)\<close>.\<close>

definition plus_one_day :: "datetime \<Rightarrow> datetime" where
  "plus_one_day d =
     (if day d < days_in_month (year d) (month d) then d\<lparr>day := day d + 1\<rparr>
      else if month d < 12 then d\<lparr>month := month d + 1, day := 1\<rparr>
      else d\<lparr>year := year d + 1, month := 1, day := 1\<rparr>)"

fun plus_days :: "datetime \<Rightarrow> nat \<Rightarrow> datetime" where
  "plus_days d 0 = d"
| "plus_days d (Suc n) = plus_days (plus_one_day d) n"

text \<open>
  \<^verbatim>\<open>dt + timedelta(minutes=m)\<close>: the minutes carry into hours and whole days.
\<close>

definition plus_minutes :: "datetime \<Rightarrow> nat \<Rightarrow> datetime" where
  "plus_minutes d m =
     (let total = hour d * 60 + minute d + int m
      in (plus_days d (nat (total div 1440)))
           \<lparr>hour := (total mod 1440) div 60, minute := total mod 60\<rparr>)"

text \<open>
  What a handler can raise. \<^verbatim>\<open>HTTPException\<close> carries its status code and detail.
  A pydantic error on a request body is answered by the framework's default handler
  (no exception handler is registered in server.py); a pydantic error while a handler
  builds a model, and any other Python exception, is an unhandled server error.
\<close>

datatype error =
    HTTPException int string
  | RequestValidationError "string list"
  | ValidationError
  | ValueError
  | TypeError
  | ZeroDivisionError

fun status_code :: "error \<Rightarrow> int" where
  "status_code (HTTPException c _) = c"
| "status_code (RequestValidationError _) = 422"
| "status_code _ = 500"

subsection \<open>Models\<close>

record UserCreate =
  uc_name :: string
  uc_email :: string
  uc_password :: string

record User =
  User_id :: string
  name :: string
  email :: string
  currency :: string
  monthly_budget :: real
  User_created_at :: datetime

text \<open>A document of the users collection: the \<^verbatim>\<open>User\<close> fields and the password hash.\<close>

record user_doc = User +
  password_hash :: string

record TransactionCreate =
  tc_type :: string
  tc_amount :: real
  tc_category :: string
  tc_description :: string
  tc_payment_type :: string
  tc_tags :: "string list"
  tc_date :: "datetime option"

text \<open>
  \<^verbatim>\<open>Transaction\<close>, with the type of the \<^verbatim>\<open>date\<close> field as a parameter: the model
  class has a datetime there (\<open>Transaction\<close>), a stored document can hold null
  (\<open>transaction_doc\<close>), which an update whose payload has no date writes.
\<close>

record 'd transaction =
  tx_id :: string
  user_id :: string
  tx_type :: string
  amount :: real
  category :: string
  description :: string
  payment_type :: string
  tags :: "string list"
  date :: 'd
  created_at :: datetime
  deleted :: bool

type_synonym Transaction = "datetime transaction"
type_synonym transaction_doc = "datetime option transaction"

record db =
  users :: "user_doc list"
  transactions :: "transaction_doc list"

text \<open>The validators of \<^verbatim>\<open>TransactionCreate\<close>; pydantic collects the errors of all fields.\<close>

definition validate_type :: "string \<Rightarrow> string list" where
  "validate_type v =
     (if v \<noteq> ''income'' \<and> v \<noteq> ''expense'' then [''Type must be income or expense''] else [])"

definition validate_amount :: "real \<Rightarrow> string list" where
  "validate_amount v = (if v \<le> 0 then [''Amount must be positive''] else [])"

definition TransactionCreate_validate :: "TransactionCreate \<Rightarrow> error + TransactionCreate" where
  "TransactionCreate_validate raw =
     (let errs = validate_type (tc_type raw) @ validate_amount (tc_amount raw)
      in if errs = [] then Inr raw else Inl (RequestValidationError errs))"

text \<open>
  \<^verbatim>\<open>transaction.dict()\<close> stored as a document, and \<^verbatim>\<open>Transaction(**document)\<close>:
  the date field of the model is not optional, so a null date is a pydantic error.
\<close>

definition doc_of :: "Transaction \<Rightarrow> transaction_doc" where
  "doc_of t =
     \<lparr>tx_id = tx_id t, user_id = user_id t, tx_type = tx_type t, amount = amount t,
      category = category t, description = description t, payment_type = payment_type t,
      tags = tags t, date = Some (date t), created_at = created_at t, deleted = deleted t\<rparr>"

definition Transaction_of :: "transaction_doc \<Rightarrow> error + Transaction" where
  "Transaction_of d =
     (case date d of
        None \<Rightarrow> Inl ValidationError
      | Some dt \<Rightarrow>
          Inr \<lparr>tx_id = tx_id d, user_id = user_id d, tx_type = tx_type d, amount = amount d,
               category = category d, description = description d,
               payment_type = payment_type d, tags = tags d, date = dt,
               created_at = created_at d, deleted = deleted d\<rparr>)"

text \<open>\<^verbatim>\<open>[Transaction(**parse_from_mongo(t)) for t in transactions]\<close>: the first error ends it.\<close>

fun Transactions_of :: "transaction_doc list \<Rightarrow> error + Transaction list" where
  "Transactions_of [] = Inr []"
| "Transactions_of (d # ds) =
     (case Transaction_of d of
        Inl e \<Rightarrow> Inl e
      | Inr t \<Rightarrow> (case Transactions_of ds of Inl e \<Rightarrow> Inl e | Inr ts \<Rightarrow> Inr (t # ts)))"

subsection \<open>The document store\<close>

text \<open>
  A collection is the list of its documents in insertion order. \<^verbatim>\<open>find_one\<close> returns
  the first match, \<^verbatim>\<open>update_one\<close> changes the first match and reports
  \<^verbatim>\<open>matched_count\<close>, \<^verbatim>\<open>insert_one\<close> appends.
\<close>

definition find_one :: "('a \<Rightarrow> bool) \<Rightarrow> 'a list \<Rightarrow> 'a option" where
  "find_one q xs = List.find q xs"

fun update_one :: "('a \<Rightarrow> bool) \<Rightarrow> ('a \<Rightarrow> 'a) \<Rightarrow> 'a list \<Rightarrow> 'a list \<times> nat" where
  "update_one q f [] = ([], 0)"
| "update_one q f (x # xs) =
     (if q x then (f x # xs, 1)
      else (case update_one q f xs of (ys, n) \<Rightarrow> (x # ys, n)))"

definition insert_one :: "'a list \<Rightarrow> 'a \<Rightarrow> 'a list" where
  "insert_one xs x = xs @ [x]"

text \<open>
  \<^verbatim>\<open>.sort(field, -1)\<close>: descending by the key. The store leaves the order of equal keys
  open; the model keeps them in insertion order.
\<close>

fun insert_desc :: "('a \<Rightarrow> 'k::linorder) \<Rightarrow> 'a \<Rightarrow> 'a list \<Rightarrow> 'a list" where
  "insert_desc k x [] = [x]"
| "insert_desc k x (y # ys) =
     (if k y \<le> k x then x # y # ys else y # insert_desc k x ys)"

definition sort_desc :: "('a \<Rightarrow> 'k::linorder) \<Rightarrow> 'a list \<Rightarrow> 'a list" where
  "sort_desc k xs = foldr (insert_desc k) xs []"

text \<open>The sort key of the date field: null sorts below every date.\<close>

definition date_sort_key :: "transaction_doc \<Rightarrow> dt_key option" where
  "date_sort_key d = map_option dt_key (date d)"

text \<open>\<^verbatim>\<open>{"date": {"$gte": start}}\<close>: a null date never matches.\<close>

definition date_gte :: "transaction_doc \<Rightarrow> datetime \<Rightarrow> bool" where
  "date_gte d start = (case date d of None \<Rightarrow> False | Some dt \<Rightarrow> dt_key start \<le> dt_key dt)"

text \<open>
  \<^verbatim>\<open>.skip(n)\<close> raises ValueError on a negative number; \<^verbatim>\<open>.limit(n)\<close> takes
  \<open>|n|\<close> documents, and all of them when \<open>n = 0\<close>.
\<close>

definition mongo_limit :: "int \<Rightarrow> 'a list \<Rightarrow> 'a list" where
  "mongo_limit n xs = (if n = 0 then xs else take (nat \<bar>n\<bar>) xs)"

subsection \<open>Authentication\<close>

text \<open>The payload of the signed token; signing and encoding are the JWT library's.\<close>

record token =
  sub :: string
  exp :: datetime

definition ACCESS_TOKEN_EXPIRE_MINUTES :: nat where
  "ACCESS_TOKEN_EXPIRE_MINUTES = 30 * 24 * 60"

definition create_access_token :: "datetime \<Rightarrow> string \<Rightarrow> token" where
  "create_access_token now s = \<lparr>sub = s, exp = plus_minutes now ACCESS_TOKEN_EXPIRE_MINUTES\<rparr>"

record auth_response =
  access_token :: token
  token_type :: string
  user :: User

text \<open>
  \<^verbatim>\<open>register\<close>. The clock reading \<open>now\<close>, the fresh uuid \<open>new_id\<close> and the
  password hashing function are inputs. The default currency is the rupee sign, three
  bytes in UTF-8.
\<close>

definition register ::
  "datetime \<Rightarrow> string \<Rightarrow> (string \<Rightarrow> string) \<Rightarrow> db \<Rightarrow> UserCreate \<Rightarrow> db \<times> (error + auth_response)" where
  "register now new_id get_password_hash s user_data =
     (case find_one (\<lambda>u. email u = uc_email user_data) (users s) of
        Some existing_user \<Rightarrow> (s, Inl (HTTPException 400 ''Email already registered''))
      | None \<Rightarrow>
          (let hashed_password = get_password_hash (uc_password user_data);
               u = \<lparr>User_id = new_id, name = uc_name user_data, email = uc_email user_data,
                    currency = [CHR 0xE2, CHR 0x82, CHR 0xB9], monthly_budget = 10000,
                    User_created_at = now\<rparr>;
               user_dict = \<lparr>User_id = User_id u, name = name u, email = email u,
                    currency = currency u, monthly_budget = monthly_budget u,
                    User_created_at = User_created_at u, password_hash = hashed_password\<rparr>
           in (s\<lparr>users := insert_one (users s) user_dict\<rparr>,
               Inr \<lparr>access_token = create_access_token now (User_id u),
                    token_type = ''bearer'', user = u\<rparr>)))"

subsection \<open>Transaction endpoints\<close>

text \<open>
  A handler takes the validated request model and the user the token resolved to,
  and returns the store and its answer.
\<close>

definition create_transaction ::
  "datetime \<Rightarrow> string \<Rightarrow> db \<Rightarrow> TransactionCreate \<Rightarrow> User \<Rightarrow> db \<times> (error + Transaction)" where
  "create_transaction now new_id s transaction_data current_user =
     (let d = (case tc_date transaction_data of None \<Rightarrow> now | Some dt \<Rightarrow> dt);
          t = \<lparr>tx_id = new_id, user_id = User_id current_user,
               tx_type = tc_type transaction_data, amount = tc_amount transaction_data,
               category = tc_category transaction_data,
               description = tc_description transaction_data,
               payment_type = tc_payment_type transaction_data,
               tags = tc_tags transaction_data, date = d, created_at = now,
               deleted = False\<rparr>
      in (s\<lparr>transactions := insert_one (transactions s) (doc_of t)\<rparr>, Inr t))"

text \<open>
  The endpoint \<^verbatim>\<open>POST /transactions\<close> on a request body: the framework builds
  \<^verbatim>\<open>TransactionCreate\<close>, running its validators, and calls the handler only when
  that succeeded.
\<close>

definition post_transactions ::
  "datetime \<Rightarrow> string \<Rightarrow> db \<Rightarrow> TransactionCreate \<Rightarrow> User \<Rightarrow> db \<times> (error + Transaction)" where
  "post_transactions now new_id s body current_user =
     (case TransactionCreate_validate body of
        Inl e \<Rightarrow> (s, Inl e)
      | Inr transaction_data \<Rightarrow> create_transaction now new_id s transaction_data current_user)"

text \<open>\<^verbatim>\<open>if category:\<close> is false for None and for the empty string.\<close>

definition matches_param :: "string option \<Rightarrow> string \<Rightarrow> bool" where
  "matches_param p v = (case p of None \<Rightarrow> True | Some c \<Rightarrow> c = [] \<or> v = c)"

definition get_transactions ::
  "db \<Rightarrow> int \<Rightarrow> int \<Rightarrow> string option \<Rightarrow> string option \<Rightarrow> User \<Rightarrow> error + Transaction list" where
  "get_transactions s limit offset category_p type_p current_user =
     (let query = (\<lambda>d. user_id d = User_id current_user \<and> deleted d = False
                        \<and> matches_param category_p (category d)
                        \<and> matches_param type_p (tx_type d))
      in if offset < 0 then Inl ValueError
         else Transactions_of
                (mongo_limit limit
                   (drop (nat offset) (sort_desc date_sort_key (filter query (transactions s))))))"

text \<open>\<^verbatim>\<open>{"$set": transaction_data.dict()}\<close>: the seven fields of the payload, the date as it is.\<close>

definition set_fields :: "TransactionCreate \<Rightarrow> transaction_doc \<Rightarrow> transaction_doc" where
  "set_fields transaction_data d =
     d\<lparr>tx_type := tc_type transaction_data, amount := tc_amount transaction_data,
       category := tc_category transaction_data,
       description := tc_description transaction_data,
       payment_type := tc_payment_type transaction_data,
       tags := tc_tags transaction_data, date := tc_date transaction_data\<rparr>"

definition update_transaction ::
  "db \<Rightarrow> string \<Rightarrow> TransactionCreate \<Rightarrow> User \<Rightarrow> db \<times> (error + Transaction)" where
  "update_transaction s transaction_id transaction_data current_user =
     (case update_one (\<lambda>d. tx_id d = transaction_id \<and> user_id d = User_id current_user)
             (set_fields transaction_data) (transactions s) of
        (txs, matched_count) \<Rightarrow>
          (let s' = s\<lparr>transactions := txs\<rparr>
           in if matched_count = 0
              then (s', Inl (HTTPException 404 ''Transaction not found''))
              else (case find_one (\<lambda>d. tx_id d = transaction_id) txs of
                      None \<Rightarrow> (s', Inl TypeError)
                    | Some updated_transaction \<Rightarrow> (s', Transaction_of updated_transaction))))"

definition delete_transaction :: "db \<Rightarrow> string \<Rightarrow> User \<Rightarrow> db \<times> (error + string)" where
  "delete_transaction s transaction_id current_user =
     (case update_one (\<lambda>d. tx_id d = transaction_id \<and> user_id d = User_id current_user)
             (\<lambda>d. d\<lparr>deleted := True\<rparr>) (transactions s) of
        (txs, matched_count) \<Rightarrow>
          (let s' = s\<lparr>transactions := txs\<rparr>
           in if matched_count = 0
              then (s', Inl (HTTPException 404 ''Transaction not found''))
              else (s', Inr ''Transaction deleted successfully'')))"

subsection \<open>Dashboard\<close>

record DashboardData =
  total_income :: real
  total_expenses :: real
  balance :: real
  budget_used_percent :: real
  recent_transactions :: "Transaction list"
  category_breakdown :: "(string \<times> real) list"
  monthly_trend :: "((int \<times> int \<times> int) \<times> real) list"

text \<open>
  A Python dict as an association list in insertion order:
  \<^verbatim>\<open>d.get(k, default)\<close> and \<^verbatim>\<open>d[k] = v\<close>.
\<close>

definition dict_get :: "('k \<times> 'v) list \<Rightarrow> 'k \<Rightarrow> 'v \<Rightarrow> 'v" where
  "dict_get d k dflt = (case map_of d k of None \<Rightarrow> dflt | Some v \<Rightarrow> v)"

fun dict_set :: "('k \<times> 'v) list \<Rightarrow> 'k \<Rightarrow> 'v \<Rightarrow> ('k \<times> 'v) list" where
  "dict_set [] k v = [(k, v)]"
| "dict_set (p # ps) k v = (if fst p = k then (k, v) # ps else p # dict_set ps k v)"

text \<open>The loop \<^verbatim>\<open>for t in transactions: if t.type == "expense": ...\<close> of the dashboard.\<close>

fun category_breakdown_loop ::
  "(string \<times> real) list \<Rightarrow> Transaction list \<Rightarrow> (string \<times> real) list" where
  "category_breakdown_loop m [] = m"
| "category_breakdown_loop m (t # ts) =
     category_breakdown_loop
       (if tx_type t = ''expense''
        then dict_set m (category t) (dict_get m (category t) 0 + amount t) else m) ts"

definition period_start :: "datetime \<Rightarrow> string \<Rightarrow> datetime" where
  "period_start now period =
     (if period = ''monthly''
      then now\<lparr>day := 1, hour := 0, minute := 0, second := 0, microsecond := 0\<rparr>
      else if period = ''weekly'' then minus_days now 7
      else minus_days now 30)"

text \<open>The transactions of the period: the query of the dashboard, parsed.\<close>

definition period_transactions ::
  "datetime \<Rightarrow> db \<Rightarrow> string \<Rightarrow> User \<Rightarrow> error + Transaction list" where
  "period_transactions now s period current_user =
     Transactions_of
       (sort_desc date_sort_key
          (filter (\<lambda>d. user_id d = User_id current_user \<and> deleted d = False
                       \<and> date_gte d (period_start now period))
             (transactions s)))"

definition daily_expenses :: "datetime \<Rightarrow> Transaction list \<Rightarrow> nat \<Rightarrow> (int \<times> int \<times> int) \<times> real" where
  "daily_expenses now txs i =
     (let d = minus_days now i;
          day_transactions = filter (\<lambda>t. date_of (date t) = date_of d) txs
      in (date_of d,
          sum_list (map amount (filter (\<lambda>t. tx_type t = ''expense'') day_transactions))))"

definition get_dashboard_data ::
  "datetime \<Rightarrow> db \<Rightarrow> string \<Rightarrow> User \<Rightarrow> error + DashboardData" where
  "get_dashboard_data now s period current_user =
     (case period_transactions now s period current_user of
        Inl e \<Rightarrow> Inl e
      | Inr txs \<Rightarrow>
          (let income = sum_list (map amount (filter (\<lambda>t. tx_type t = ''income'') txs));
               expenses = sum_list (map amount (filter (\<lambda>t. tx_type t = ''expense'') txs));
               trend = map (daily_expenses now txs) [0..<7]
           in Inr \<lparr>total_income = income, total_expenses = expenses,
                   balance = income - expenses,
                   budget_used_percent =
                     (if monthly_budget current_user > 0
                      then min ((expenses / monthly_budget current_user) * 100) 100 else 0),
                   recent_transactions = take 10 txs,
                   category_breakdown = category_breakdown_loop [] txs,
                   monthly_trend = rev trend\<rparr>))"

subsection \<open>Insights\<close>

text \<open>
  The tips and the projection message are formatted strings in the source; the model
  keeps the template and the values it is filled with.
\<close>

datatype tip =
    StartTracking
  | TopCategory real string
  | SmallPurchases nat real
  | OverBudget real
  | UnderBudget real

datatype message = NoDataAvailable | CurrentRate real

datatype projection =
    NoData real message
  | Projected real real message

record insights =
  tips :: "tip list"
  projection :: projection

definition py_div :: "real \<Rightarrow> real \<Rightarrow> error + real" where
  "py_div a b = (if b = 0 then Inl ZeroDivisionError else Inr (a / b))"

text \<open>\<^verbatim>\<open>max(d, key=d.get)\<close> on a non-empty dict: the first key with the greatest value.\<close>

fun max_key :: "('k \<times> real) \<Rightarrow> ('k \<times> real) list \<Rightarrow> ('k \<times> real)" where
  "max_key best [] = best"
| "max_key best (p # ps) = max_key (if snd best < snd p then p else best) ps"

fun category_totals_loop ::
  "(string \<times> real) list \<Rightarrow> Transaction list \<Rightarrow> (string \<times> real) list" where
  "category_totals_loop m [] = m"
| "category_totals_loop m (t # ts) =
     category_totals_loop (dict_set m (category t) (dict_get m (category t) 0 + amount t)) ts"

definition top_category_tip :: "(string \<times> real) list \<Rightarrow> real \<Rightarrow> error + tip list" where
  "top_category_tip category_totals total_spent =
     (case category_totals of
        [] \<Rightarrow> Inr []
      | p # ps \<Rightarrow>
          (case max_key p ps of
             (top_category, top_amount) \<Rightarrow>
               (case py_div top_amount total_spent of
                  Inl e \<Rightarrow> Inl e
                | Inr q \<Rightarrow>
                    (let percentage = q * 100
                     in Inr (if percentage > 30 then [TopCategory percentage top_category]
                             else [])))))"

text \<open>\<^verbatim>\<open>dt.replace(month=m, day=d)\<close> raises ValueError outside the calendar.\<close>

definition replace_month_day :: "datetime \<Rightarrow> int \<Rightarrow> int \<Rightarrow> error + datetime" where
  "replace_month_day dt m d =
     (if 1 \<le> m \<and> m \<le> 12 \<and> 1 \<le> d \<and> d \<le> days_in_month (year dt) m
      then Inr (dt\<lparr>month := m, day := d\<rparr>) else Inl ValueError)"

definition month_end_projection :: "datetime \<Rightarrow> User \<Rightarrow> real \<Rightarrow> error + projection" where
  "month_end_projection now current_user total_spent =
     (case replace_month_day now (month now + 1) 1 of
        Inl e \<Rightarrow> Inl e
      | Inr first_of_next \<Rightarrow>
          (let days_in_this_month = day (minus_days first_of_next 1);
               days_passed = day now;
               avg_daily_spend = (if days_passed > 0 then total_spent / of_int days_passed else 0);
               projected_monthly_spend = avg_daily_spend * of_int days_in_this_month;
               projected_balance = monthly_budget current_user - projected_monthly_spend
           in Inr (Projected projected_monthly_spend projected_balance
                     (CurrentRate projected_monthly_spend))))"

text \<open>The expenses of the trailing 30 days: the query of the insights endpoint, parsed.\<close>

definition insights_expenses :: "datetime \<Rightarrow> db \<Rightarrow> User \<Rightarrow> error + Transaction list" where
  "insights_expenses now s current_user =
     (case Transactions_of
             (filter (\<lambda>d. user_id d = User_id current_user \<and> deleted d = False
                          \<and> date_gte d (minus_days now 30))
                (transactions s)) of
        Inl e \<Rightarrow> Inl e
      | Inr txs \<Rightarrow> Inr (filter (\<lambda>t. tx_type t = ''expense'') txs))"

definition get_insights :: "datetime \<Rightarrow> db \<Rightarrow> User \<Rightarrow> error + insights" where
  "get_insights now s current_user =
     (case insights_expenses now s current_user of
        Inl e \<Rightarrow> Inl e
      | Inr expenses \<Rightarrow>
          if expenses = []
          then Inr \<lparr>tips = [StartTracking], projection = NoData 0 NoDataAvailable\<rparr>
          else
            (let total_spent = sum_list (map amount expenses);
                 category_totals = category_totals_loop [] expenses
             in case top_category_tip category_totals total_spent of
                  Inl e \<Rightarrow> Inl e
                | Inr tips1 \<Rightarrow>
                    (let small_expenses = filter (\<lambda>t. amount t < 100) expenses;
                         tips2 = tips1 @
                           (if length small_expenses > 10
                            then [SmallPurchases (length small_expenses)
                                    (sum_list (map amount small_expenses))]
                            else []);
                         tips3 = tips2 @
                           (if total_spent > monthly_budget current_user
                            then [OverBudget (total_spent - monthly_budget current_user)]
                            else [UnderBudget (monthly_budget current_user - total_spent)])
                     in case month_end_projection now current_user total_spent of
                          Inl e \<Rightarrow> Inl e
                        | Inr p \<Rightarrow> Inr \<lparr>tips = take 3 tips3, projection = p\<rparr>)))"

subsection \<open>A small store\<close>

text \<open>
  Two users and a handful of transactions, on which the theorems below are run:
  Alice has an expense, an income and a soft-deleted expense in June 2025, Bob has one
  expense.
\<close>

definition ex_june :: datetime where
  "ex_june = \<lparr>year = 2025, month = 6, day = 15, hour = 10, minute = 0, second = 0,
              microsecond = 0\<rparr>"

definition ex_december :: datetime where
  "ex_december = \<lparr>year = 2025, month = 12, day = 15, hour = 10, minute = 0, second = 0,
                  microsecond = 0\<rparr>"

definition ex_alice :: User where
  "ex_alice = \<lparr>User_id = ''a'', name = ''Alice'', email = ''alice@example.com'',
               currency = ''Rs'', monthly_budget = 10000, User_created_at = ex_june\<rparr>"

definition ex_bob :: User where
  "ex_bob = \<lparr>User_id = ''b'', name = ''Bob'', email = ''bob@example.com'',
             currency = ''Rs'', monthly_budget = 0, User_created_at = ex_june\<rparr>"

definition ex_doc ::
  "string \<Rightarrow> string \<Rightarrow> string \<Rightarrow> real \<Rightarrow> datetime option \<Rightarrow> bool \<Rightarrow> transaction_doc" where
  "ex_doc i u ty a d del =
     \<lparr>tx_id = i, user_id = u, tx_type = ty, amount = a, category = ''Food'',
      description = ''lunch'', payment_type = ''Cash'', tags = [], date = d,
      created_at = ex_june, deleted = del\<rparr>"

definition ex_tx ::
  "string \<Rightarrow> string \<Rightarrow> string \<Rightarrow> real \<Rightarrow> datetime \<Rightarrow> bool \<Rightarrow> Transaction" where
  "ex_tx i u ty a d del =
     \<lparr>tx_id = i, user_id = u, tx_type = ty, amount = a, category = ''Food'',
      description = ''lunch'', payment_type = ''Cash'', tags = [], date = d,
      created_at = ex_june, deleted = del\<rparr>"

definition ex_users :: "user_doc list" where
  "ex_users =
     [\<lparr>User_id = ''a'', name = ''Alice'', email = ''alice@example.com'', currency = ''Rs'',
       monthly_budget = 10000, User_created_at = ex_june, password_hash = ''h1''\<rparr>,
      \<lparr>User_id = ''b'', name = ''Bob'', email = ''bob@example.com'', currency = ''Rs'',
       monthly_budget = 0, User_created_at = ex_june, password_hash = ''h2''\<rparr>]"

definition ex_db :: db where
  "ex_db =
     \<lparr>users = ex_users,
      transactions =
        [ex_doc ''1'' ''a'' ''expense'' 150 (Some (ex_june\<lparr>day := 10\<rparr>)) False,
         ex_doc ''2'' ''a'' ''income'' 500 (Some (ex_june\<lparr>day := 12\<rparr>)) False,
         ex_doc ''3'' ''a'' ''expense'' 70 (Some (ex_june\<lparr>day := 14\<rparr>)) True,
         ex_doc ''4'' ''b'' ''expense'' 70 (Some (ex_june\<lparr>day := 14\<rparr>)) False]\<rparr>"

text \<open>The same store in December.\<close>

definition ex_db_december :: db where
  "ex_db_december =
     \<lparr>users = ex_users,
      transactions =
        [ex_doc ''1'' ''a'' ''expense'' 150 (Some (ex_december\<lparr>day := 10\<rparr>)) False,
         ex_doc ''2'' ''a'' ''income'' 500 (Some (ex_december\<lparr>day := 12\<rparr>)) False]\<rparr>"

definition ex_payload :: "string \<Rightarrow> real \<Rightarrow> datetime option \<Rightarrow> TransactionCreate" where
  "ex_payload ty a d =
     \<lparr>tc_type = ty, tc_amount = a, tc_category = ''Books'', tc_description = ''atlas'',
      tc_payment_type = ''Card'', tc_tags = [], tc_date = d\<rparr>"

definition ex_signup_alice :: UserCreate where
  "ex_signup_alice =
     \<lparr>uc_name = ''Alice again'', uc_email = ''alice@example.com'', uc_password = ''pw''\<rparr>"

definition ex_signup_carol :: UserCreate where
  "ex_signup_carol =
     \<lparr>uc_name = ''Carol'', uc_email = ''carol@example.com'', uc_password = ''pw''\<rparr>"

text \<open>The status line of an answer: 200 unless the handler raised.\<close>

definition response_status :: "error + 'a \<Rightarrow> int" where
  "response_status r = (case r of Inl e \<Rightarrow> status_code e | Inr _ \<Rightarrow> 200)"

section \<open>Properties\<close>

lemmas ex_defs =
  ex_db_def ex_doc_def ex_tx_def ex_june_def ex_december_def ex_alice_def ex_bob_def
  ex_users_def ex_db_december_def ex_payload_def

subsection \<open>Sorting and parsing\<close>

lemma set_insert_desc: "set (insert_desc k x xs) = insert x (set xs)"
  by (induction xs) auto

lemma set_sort_desc: "set (sort_desc k xs) = set xs"
  unfolding sort_desc_def by (induction xs) (simp_all add: set_insert_desc)

lemma Transaction_of_Inr: "Transaction_of d = Inr t \<Longrightarrow> doc_of t = d"
  by (auto simp: Transaction_of_def doc_of_def split: option.splits)

lemma Transactions_of_Inr: "Transactions_of ds = Inr ts \<Longrightarrow> map doc_of ts = ds"
  by (induction ds arbitrary: ts) (auto split: sum.splits dest: Transaction_of_Inr)

lemma Transactions_of_total:
  "\<forall>d\<in>set ds. date d \<noteq> None \<Longrightarrow> \<exists>ts. Transactions_of ds = Inr ts"
  by (induction ds) (auto simp: Transaction_of_def split: sum.splits option.splits)

lemma deleted_doc_of: "deleted (doc_of t) = deleted t"
  by (simp add: doc_of_def)

text \<open>The dashboard query never fails: a document with a null date is not in the period.\<close>

lemma period_transactions_total: "\<exists>txs. period_transactions now s period u = Inr txs"
  unfolding period_transactions_def
  by (rule Transactions_of_total) (auto simp: set_sort_desc date_gte_def split: option.splits)

lemma ex_period_transactions:
  "period_transactions ex_june ex_db ''monthly'' ex_alice =
     Inr [ex_tx ''2'' ''a'' ''income'' 500 (ex_june\<lparr>day := 12\<rparr>) False,
          ex_tx ''1'' ''a'' ''expense'' 150 (ex_june\<lparr>day := 10\<rparr>) False]"
  by code_simp

subsection \<open>Dashboard totals\<close>

text \<open>
  C1. For every store, clock, period and user the dashboard answers, and in its answer
  \<open>total_income\<close> is the sum of the amounts of the period's transactions of type
  income, \<open>total_expenses\<close> the sum of those of type expense, and
  \<open>balance = total_income - total_expenses\<close>.
\<close>

theorem dashboard_balance:
  "\<exists>txs r. period_transactions now s period u = Inr txs
     \<and> get_dashboard_data now s period u = Inr r
     \<and> total_income r = sum_list (map amount (filter (\<lambda>t. tx_type t = ''income'') txs))
     \<and> total_expenses r = sum_list (map amount (filter (\<lambda>t. tx_type t = ''expense'') txs))
     \<and> balance r = total_income r - total_expenses r"
proof -
  obtain txs where "period_transactions now s period u = Inr txs"
    using period_transactions_total by blast
  then show ?thesis
    by (simp add: get_dashboard_data_def Let_def)
qed

theorem dashboard_balance_witness:
  "\<exists>r. get_dashboard_data ex_june ex_db ''monthly'' ex_alice = Inr r
     \<and> total_income r = 500 \<and> total_expenses r = 150 \<and> balance r = 350"
  using dashboard_balance [of ex_june ex_db "''monthly''" ex_alice]
  by (auto simp: ex_period_transactions ex_tx_def)

text \<open>
  C2. For every store, clock, period and user the dashboard answers with
  \<open>budget_used_percent\<close> at most 100, and with 0 when the user's monthly budget is
  zero or negative.
\<close>

theorem budget_used_percent_capped:
  "\<exists>r. get_dashboard_data now s period u = Inr r
     \<and> budget_used_percent r \<le> 100
     \<and> (monthly_budget u \<le> 0 \<longrightarrow> budget_used_percent r = 0)"
proof -
  obtain txs where "period_transactions now s period u = Inr txs"
    using period_transactions_total by blast
  then show ?thesis
    by (simp add: get_dashboard_data_def Let_def)
qed

theorem budget_used_percent_capped_witness:
  "monthly_budget ex_bob \<le> 0
   \<and> (\<exists>r. get_dashboard_data ex_june ex_db ''monthly'' ex_bob = Inr r
          \<and> budget_used_percent r = 0)"
  using budget_used_percent_capped [of ex_june ex_db "''monthly''" ex_bob]
  by (auto simp: ex_bob_def)

subsection \<open>Soft-deleted transactions on the read paths\<close>

lemma Transactions_of_deleted:
  "Transactions_of ds = Inr ts \<Longrightarrow> t \<in> set ts \<Longrightarrow> doc_of t \<in> set ds \<and> deleted t = deleted (doc_of t)"
  using Transactions_of_Inr [of ds ts] by (auto simp: deleted_doc_of)

lemma filter_live:
  "filter (\<lambda>d. q d \<and> \<not> deleted d \<and> r d) (filter (\<lambda>d. \<not> deleted d) xs)
     = filter (\<lambda>d. q d \<and> \<not> deleted d \<and> r d) xs"
  by (induction xs) auto

text \<open>
  C3. Every transaction in an answer of the list endpoint, and every one among the
  dashboard's recent transactions, is one of the store that is not deleted; and the
  answers of the list endpoint, of the dashboard (with all its aggregates) and of the
  insights endpoint are the same as on the store without its deleted transactions.
\<close>

theorem deleted_excluded:
  "(\<forall>ts. get_transactions s limit offset cat ty u = Inr ts \<longrightarrow>
       (\<forall>t\<in>set ts. \<not> deleted t \<and> doc_of t \<in> set (transactions s)))
   \<and> (\<exists>r. get_dashboard_data now s period u = Inr r
          \<and> (\<forall>t\<in>set (recent_transactions r). \<not> deleted t \<and> doc_of t \<in> set (transactions s)))
   \<and> get_transactions (s\<lparr>transactions := filter (\<lambda>d. \<not> deleted d) (transactions s)\<rparr>)
         limit offset cat ty u = get_transactions s limit offset cat ty u
   \<and> get_dashboard_data now (s\<lparr>transactions := filter (\<lambda>d. \<not> deleted d) (transactions s)\<rparr>)
         period u = get_dashboard_data now s period u
   \<and> get_insights now (s\<lparr>transactions := filter (\<lambda>d. \<not> deleted d) (transactions s)\<rparr>) u
       = get_insights now s u"
proof (intro conjI allI impI ballI)
  fix ts t
  assume g: "get_transactions s limit offset cat ty u = Inr ts" and t: "t \<in> set ts"
  let ?q = "\<lambda>d. user_id d = User_id u \<and> deleted d = False
               \<and> matches_param cat (category d) \<and> matches_param ty (tx_type d)"
  let ?ds = "mongo_limit limit (drop (nat offset) (sort_desc date_sort_key (filter ?q (transactions s))))"
  from g have p: "Transactions_of ?ds = Inr ts"
    by (simp add: get_transactions_def split: if_splits)
  have "set ?ds \<subseteq> set (filter ?q (transactions s))"
    using set_sort_desc [of date_sort_key "filter ?q (transactions s)"]
    by (auto simp: mongo_limit_def dest!: in_set_takeD in_set_dropD)
  with Transactions_of_deleted [OF p t]
  show "\<not> deleted t" and "doc_of t \<in> set (transactions s)" by auto
next
  obtain txs where p: "period_transactions now s period u = Inr txs"
    using period_transactions_total by blast
  have "\<forall>t\<in>set (take 10 txs). \<not> deleted t \<and> doc_of t \<in> set (transactions s)"
  proof
    fix t assume "t \<in> set (take 10 txs)"
    then have "t \<in> set txs" by (rule in_set_takeD)
    from Transactions_of_deleted [OF p [unfolded period_transactions_def] this]
    show "\<not> deleted t \<and> doc_of t \<in> set (transactions s)"
      by (auto simp: set_sort_desc)
  qed
  with p show "\<exists>r. get_dashboard_data now s period u = Inr r
          \<and> (\<forall>t\<in>set (recent_transactions r). \<not> deleted t \<and> doc_of t \<in> set (transactions s))"
    by (simp add: get_dashboard_data_def Let_def)
next
  have "filter (\<lambda>d. user_id d = User_id u \<and> deleted d = False
               \<and> matches_param cat (category d) \<and> matches_param ty (tx_type d)) (filter (\<lambda>d. \<not> deleted d) (transactions s))
      = filter (\<lambda>d. user_id d = User_id u \<and> deleted d = False
               \<and> matches_param cat (category d) \<and> matches_param ty (tx_type d)) (transactions s)"
    using filter_live [of "\<lambda>d. user_id d = User_id u"
        "\<lambda>d. matches_param cat (category d) \<and> matches_param ty (tx_type d)" "transactions s"]
    by simp
  then show "get_transactions (s\<lparr>transactions := filter (\<lambda>d. \<not> deleted d) (transactions s)\<rparr>)
         limit offset cat ty u = get_transactions s limit offset cat ty u"
    by (simp add: get_transactions_def del: filter_filter)
next
  show "get_dashboard_data now (s\<lparr>transactions := filter (\<lambda>d. \<not> deleted d) (transactions s)\<rparr>)
         period u = get_dashboard_data now s period u"
    by (simp add: get_dashboard_data_def period_transactions_def filter_live del: filter_filter)
next
  show "get_insights now (s\<lparr>transactions := filter (\<lambda>d. \<not> deleted d) (transactions s)\<rparr>) u
       = get_insights now s u"
    by (simp add: get_insights_def insights_expenses_def filter_live del: filter_filter)
qed

lemma ex_get_transactions:
  "get_transactions ex_db 100 0 None None ex_alice =
     Inr [ex_tx ''2'' ''a'' ''income'' 500 (ex_june\<lparr>day := 12\<rparr>) False,
          ex_tx ''1'' ''a'' ''expense'' 150 (ex_june\<lparr>day := 10\<rparr>) False]"
  by code_simp

theorem deleted_excluded_witness:
  "deleted (transactions ex_db ! 2) \<and> user_id (transactions ex_db ! 2) = User_id ex_alice
   \<and> (\<exists>ts. get_transactions ex_db 100 0 None None ex_alice = Inr ts \<and> length ts = 2
         \<and> (\<forall>t\<in>set ts. \<not> deleted t))"
proof -
  have "deleted (transactions ex_db ! 2) \<and> user_id (transactions ex_db ! 2) = User_id ex_alice"
    by (simp add: ex_defs)
  moreover have "\<forall>t\<in>set ts. \<not> deleted t"
    if "get_transactions ex_db 100 0 None None ex_alice = Inr ts" for ts
    using that deleted_excluded [of ex_db 100 0 None None ex_alice ex_june "''monthly''"]
    by blast
  ultimately show ?thesis
    using ex_get_transactions by force
qed

subsection \<open>Request validation\<close>

lemma TransactionCreate_validate_Inr:
  "TransactionCreate_validate body = Inr tc \<longleftrightarrow>
     tc = body \<and> 0 < tc_amount body \<and> (tc_type body = ''income'' \<or> tc_type body = ''expense'')"
  by (auto simp: TransactionCreate_validate_def validate_type_def validate_amount_def Let_def)

text \<open>
  C4, as the code has it. A create request whose amount is at most 0 or whose type is
  neither income nor expense is rejected by the validators of the request model, before
  the handler runs: the answer carries the validators' messages, its status is 422, and
  the store is unchanged.
\<close>

theorem invalid_transaction_rejected:
  assumes "tc_amount body \<le> 0 \<or> (tc_type body \<noteq> ''income'' \<and> tc_type body \<noteq> ''expense'')"
  shows "\<exists>msgs. msgs \<noteq> []
           \<and> set msgs \<subseteq> {''Type must be income or expense'', ''Amount must be positive''}
           \<and> post_transactions now new_id s body u = (s, Inl (RequestValidationError msgs))
           \<and> response_status (snd (post_transactions now new_id s body u)) = 422"
  using assms
  by (auto simp: post_transactions_def TransactionCreate_validate_def validate_type_def
      validate_amount_def response_status_def Let_def)

theorem invalid_transaction_rejected_witness:
  "tc_amount (ex_payload ''expense'' 0 None) \<le> 0
   \<and> post_transactions ex_june ''9'' ex_db (ex_payload ''expense'' 0 None) ex_alice
       = (ex_db, Inl (RequestValidationError [''Amount must be positive'']))"
proof -
  have a: "tc_amount (ex_payload ''expense'' 0 None) \<le> 0"
    by (simp add: ex_payload_def)
  then have "tc_amount (ex_payload ''expense'' 0 None) \<le> 0
      \<or> (tc_type (ex_payload ''expense'' 0 None) \<noteq> ''income''
          \<and> tc_type (ex_payload ''expense'' 0 None) \<noteq> ''expense'')" ..
  from invalid_transaction_rejected [OF this, of ex_june "''9''" ex_db ex_alice]
  obtain msgs where
    e: "post_transactions ex_june ''9'' ex_db (ex_payload ''expense'' 0 None) ex_alice
          = (ex_db, Inl (RequestValidationError msgs))"
    by blast
  have "post_transactions ex_june ''9'' ex_db (ex_payload ''expense'' 0 None) ex_alice
          = (ex_db, Inl (RequestValidationError [''Amount must be positive'']))"
    using e
    by (auto simp: post_transactions_def TransactionCreate_validate_def validate_type_def
        validate_amount_def ex_payload_def)
  with a show ?thesis by simp
qed

theorem invalid_amount_status_counterexample:
  "response_status (snd (post_transactions ex_june ''9'' ex_db (ex_payload ''expense'' 0 None) ex_alice))
     \<noteq> 400"
  by (simp add: post_transactions_def TransactionCreate_validate_def validate_type_def
      validate_amount_def ex_payload_def response_status_def)

lemma valid_transaction_persisted:
  assumes "0 < tc_amount body" and "tc_type body = ''income'' \<or> tc_type body = ''expense''"
  shows "\<exists>t. post_transactions now new_id s body u
              = (s\<lparr>transactions := transactions s @ [doc_of t]\<rparr>, Inr t)
            \<and> tx_id t = new_id \<and> user_id t = User_id u \<and> amount t = tc_amount body
            \<and> tx_type t = tc_type body \<and> \<not> deleted t"
  using assms
  by (auto simp: post_transactions_def TransactionCreate_validate_def validate_type_def
      validate_amount_def create_transaction_def insert_one_def Let_def)

subsection \<open>Updating one document\<close>

lemma update_one_no_match: "\<forall>x\<in>set xs. \<not> q x \<Longrightarrow> update_one q f xs = (xs, 0)"
  by (induction xs) auto

lemma update_one_match:
  "\<exists>x\<in>set xs. q x \<Longrightarrow>
     \<exists>i<length xs. q (xs ! i) \<and> (\<forall>j<i. \<not> q (xs ! j)) \<and> update_one q f xs = (xs[i := f (xs ! i)], 1)"
proof (induction xs)
  case Nil
  then show ?case by simp
next
  case (Cons x xs)
  show ?case
  proof (cases "q x")
    case True
    then have "q ((x # xs) ! 0) \<and> (\<forall>j<0. \<not> q ((x # xs) ! j))
        \<and> update_one q f (x # xs) = ((x # xs)[0 := f ((x # xs) ! 0)], 1)"
      by simp
    then show ?thesis by blast
  next
    case False
    with Cons.prems have "\<exists>y\<in>set xs. q y" by auto
    from Cons.IH [OF this] obtain i where
      i: "i < length xs" "q (xs ! i)" "\<forall>j<i. \<not> q (xs ! j)"
         "update_one q f xs = (xs[i := f (xs ! i)], 1)"
      by blast
    have "\<forall>j<Suc i. \<not> q ((x # xs) ! j)"
      using False i(3) by (auto simp: less_Suc_eq_0_disj)
    with i False have "Suc i < length (x # xs) \<and> q ((x # xs) ! Suc i)
        \<and> (\<forall>j<Suc i. \<not> q ((x # xs) ! j))
        \<and> update_one q f (x # xs) = ((x # xs)[Suc i := f ((x # xs) ! Suc i)], 1)"
      by simp
    then show ?thesis by blast
  qed
qed

lemma update_one_length: "length (fst (update_one q f xs)) = length xs"
  by (induction xs) (auto split: prod.splits)

lemma update_one_map:
  "(\<And>x. g (f x) = g x) \<Longrightarrow> map g (fst (update_one q f xs)) = map g xs"
  by (induction xs) (auto split: prod.splits)

lemma distinct_ids_unique:
  "distinct (map tx_id xs) \<Longrightarrow> x \<in> set xs \<Longrightarrow> y \<in> set xs \<Longrightarrow> tx_id x = tx_id y \<Longrightarrow> x = y"
  by (meson distinct_map inj_onD)

lemma db_transactions_same: "s\<lparr>transactions := transactions s\<rparr> = s"
  by simp

subsection \<open>Ownership\<close>

text \<open>
  C5. In a store whose transaction ids are distinct (they are fresh uuids), an update
  or a delete by user \<open>a\<close> for the id of a transaction owned by somebody else is
  answered with 404 and leaves the store as it was.
\<close>

theorem foreign_transaction_not_found:
  assumes "distinct (map tx_id (transactions s))"
    and "d \<in> set (transactions s)"
    and "user_id d \<noteq> User_id a"
  shows "update_transaction s (tx_id d) payload a
           = (s, Inl (HTTPException 404 ''Transaction not found''))
       \<and> delete_transaction s (tx_id d) a
           = (s, Inl (HTTPException 404 ''Transaction not found''))"
proof -
  have "\<forall>x\<in>set (transactions s). \<not> (tx_id x = tx_id d \<and> user_id x = User_id a)"
    using assms distinct_ids_unique by blast
  then have "update_one (\<lambda>x. tx_id x = tx_id d \<and> user_id x = User_id a) f (transactions s)
      = (transactions s, 0)" for f
    by (rule update_one_no_match)
  then show ?thesis
    by (simp add: update_transaction_def delete_transaction_def)
qed

theorem foreign_transaction_not_found_witness:
  "distinct (map tx_id (transactions ex_db))
   \<and> transactions ex_db ! 3 \<in> set (transactions ex_db)
   \<and> user_id (transactions ex_db ! 3) \<noteq> User_id ex_alice
   \<and> update_transaction ex_db ''4'' (ex_payload ''expense'' 5 None) ex_alice
       = (ex_db, Inl (HTTPException 404 ''Transaction not found''))
   \<and> delete_transaction ex_db ''4'' ex_alice
       = (ex_db, Inl (HTTPException 404 ''Transaction not found''))"
proof -
  have a: "distinct (map tx_id (transactions ex_db))"
    and b: "transactions ex_db ! 3 \<in> set (transactions ex_db)"
    and c: "user_id (transactions ex_db ! 3) \<noteq> User_id ex_alice"
    and i: "tx_id (transactions ex_db ! 3) = ''4''"
    by (simp_all add: ex_defs)
  from foreign_transaction_not_found [OF a b c, of "ex_payload ''expense'' 5 None"] a b c i
  show ?thesis by simp
qed

text \<open>The ids stay distinct: a create adds a fresh one, update and delete keep them.\<close>

lemma create_transaction_ids:
  "new_id \<notin> tx_id ` set (transactions s) \<Longrightarrow> distinct (map tx_id (transactions s)) \<Longrightarrow>
     distinct (map tx_id (transactions (fst (create_transaction now new_id s payload u))))"
  by (simp add: create_transaction_def insert_one_def doc_of_def Let_def)

lemma fst_update_transaction:
  "fst (update_transaction s tid payload u)
     = s\<lparr>transactions := fst (update_one (\<lambda>d. tx_id d = tid \<and> user_id d = User_id u)
                                (set_fields payload) (transactions s))\<rparr>"
  by (simp add: update_transaction_def Let_def split: prod.splits option.splits)

lemma fst_delete_transaction:
  "fst (delete_transaction s tid u)
     = s\<lparr>transactions := fst (update_one (\<lambda>d. tx_id d = tid \<and> user_id d = User_id u)
                                (\<lambda>d. d\<lparr>deleted := True\<rparr>) (transactions s))\<rparr>"
  by (simp add: delete_transaction_def Let_def split: prod.splits)

lemma update_transaction_ids:
  "map tx_id (transactions (fst (update_transaction s tid payload u))) = map tx_id (transactions s)"
  unfolding fst_update_transaction
  by (simp add: update_one_map set_fields_def)

lemma delete_transaction_ids:
  "map tx_id (transactions (fst (delete_transaction s tid u))) = map tx_id (transactions s)"
  unfolding fst_delete_transaction
  by (simp add: update_one_map)

subsection \<open>Registration\<close>

lemma find_one_None: "find_one q xs = None \<longleftrightarrow> (\<forall>x\<in>set xs. \<not> q x)"
  by (auto simp: find_one_def find_None_iff)

lemma register_duplicate:
  "\<exists>x\<in>set (users s). email x = uc_email user_data \<Longrightarrow>
     register now new_id h s user_data = (s, Inl (HTTPException 400 ''Email already registered''))"
proof -
  assume "\<exists>x\<in>set (users s). email x = uc_email user_data"
  then have "find_one (\<lambda>x. email x = uc_email user_data) (users s) \<noteq> None"
    by (simp add: find_one_None)
  then show ?thesis
    by (auto simp: register_def)
qed

lemma register_fresh:
  assumes "\<forall>x\<in>set (users s). email x \<noteq> uc_email user_data"
  shows "\<exists>r x. register now new_id h s user_data = (s\<lparr>users := users s @ [x]\<rparr>, Inr r)
           \<and> email x = uc_email user_data \<and> User_id x = new_id
           \<and> password_hash x = h (uc_password user_data)
           \<and> email (user r) = uc_email user_data \<and> User_id (user r) = new_id
           \<and> sub (access_token r) = new_id"
proof -
  from assms have n: "find_one (\<lambda>x. email x = uc_email user_data) (users s) = None"
    by (simp add: find_one_None)
  let ?x = "\<lparr>User_id = new_id, name = uc_name user_data, email = uc_email user_data,
              currency = [CHR 0xE2, CHR 0x82, CHR 0xB9], monthly_budget = 10000,
              User_created_at = now, password_hash = h (uc_password user_data)\<rparr>"
  let ?r = "\<lparr>access_token = create_access_token now new_id, token_type = ''bearer'',
              user = \<lparr>User_id = new_id, name = uc_name user_data,
                      email = uc_email user_data,
                      currency = [CHR 0xE2, CHR 0x82, CHR 0xB9], monthly_budget = 10000,
                      User_created_at = now\<rparr>\<rparr>"
  from n have "register now new_id h s user_data = (s\<lparr>users := users s @ [?x]\<rparr>, Inr ?r)"
    by (simp add: register_def insert_one_def Let_def)
  then show ?thesis
    by (intro exI [of _ ?r] exI [of _ ?x]) (simp add: create_access_token_def)
qed

text \<open>
  C6. A registration with an email that a user of the store already has is answered
  with 400 and leaves the store as it was. A registration with an email that no user
  has succeeds and adds exactly one user, with that email; after it, every registration
  with the same email is answered with 400 and adds nothing.
\<close>

theorem duplicate_email_rejected:
  "((\<exists>x\<in>set (users s). email x = uc_email user_data) \<longrightarrow>
      register now new_id h s user_data
        = (s, Inl (HTTPException 400 ''Email already registered'')))
   \<and> ((\<forall>x\<in>set (users s). email x \<noteq> uc_email user_data) \<longrightarrow>
      (\<exists>s' r. register now new_id h s user_data = (s', Inr r)
         \<and> length (users s') = Suc (length (users s))
         \<and> email (last (users s')) = uc_email user_data
         \<and> email (user r) = uc_email user_data
         \<and> (\<forall>now' new_id' h' again. uc_email again = uc_email user_data \<longrightarrow>
               register now' new_id' h' s' again
                 = (s', Inl (HTTPException 400 ''Email already registered'')))))"
proof (intro conjI impI)
  assume "\<exists>x\<in>set (users s). email x = uc_email user_data"
  then show "register now new_id h s user_data
        = (s, Inl (HTTPException 400 ''Email already registered''))"
    by (rule register_duplicate)
next
  assume "\<forall>x\<in>set (users s). email x \<noteq> uc_email user_data"
  from register_fresh [OF this, of now new_id h] obtain r x where
    r: "register now new_id h s user_data = (s\<lparr>users := users s @ [x]\<rparr>, Inr r)"
    and x: "email x = uc_email user_data" and u: "email (user r) = uc_email user_data"
    by blast
  let ?s' = "s\<lparr>users := users s @ [x]\<rparr>"
  have "register now' new_id' h' ?s' again
          = (?s', Inl (HTTPException 400 ''Email already registered''))"
    if "uc_email again = uc_email user_data" for now' new_id' h' again
    by (rule register_duplicate) (use that x in simp)
  with r x u show "\<exists>s' r. register now new_id h s user_data = (s', Inr r)
         \<and> length (users s') = Suc (length (users s))
         \<and> email (last (users s')) = uc_email user_data
         \<and> email (user r) = uc_email user_data
         \<and> (\<forall>now' new_id' h' again. uc_email again = uc_email user_data \<longrightarrow>
               register now' new_id' h' s' again
                 = (s', Inl (HTTPException 400 ''Email already registered'')))"
    by (intro exI [of _ ?s'] exI [of _ r]) simp
qed

theorem duplicate_email_rejected_witness:
  "uc_email ex_signup_alice \<in> set (map email (users ex_db))
   \<and> register ex_june ''c'' (\<lambda>p. p) ex_db ex_signup_alice
       = (ex_db, Inl (HTTPException 400 ''Email already registered''))
   \<and> uc_email ex_signup_carol \<notin> set (map email (users ex_db))
   \<and> (\<exists>s' r. register ex_june ''c'' (\<lambda>p. p) ex_db ex_signup_carol = (s', Inr r)
         \<and> length (users s') = 3
         \<and> register ex_december ''d'' (\<lambda>p. p) s' ex_signup_carol
             = (s', Inl (HTTPException 400 ''Email already registered'')))"
proof -
  have a': "uc_email ex_signup_alice \<in> set (map email (users ex_db))"
    and c': "uc_email ex_signup_carol \<notin> set (map email (users ex_db))"
    and l: "length (users ex_db) = 2"
    by (simp_all add: ex_defs ex_signup_alice_def ex_signup_carol_def)
  from a' have a: "\<exists>x\<in>set (users ex_db). email x = uc_email ex_signup_alice"
    by (simp only: set_map) (metis imageE)
  from c' have c: "\<forall>x\<in>set (users ex_db). email x \<noteq> uc_email ex_signup_carol"
    by (simp only: set_map) (metis image_eqI)
  from duplicate_email_rejected [of ex_db ex_signup_alice ex_june "''c''" "\<lambda>p. p"] a
  have 1: "register ex_june ''c'' (\<lambda>p. p) ex_db ex_signup_alice
       = (ex_db, Inl (HTTPException 400 ''Email already registered''))"
    by blast
  from duplicate_email_rejected [of ex_db ex_signup_carol ex_june "''c''" "\<lambda>p. p"] c
  obtain s' r where "register ex_june ''c'' (\<lambda>p. p) ex_db ex_signup_carol = (s', Inr r)"
    and "length (users s') = Suc (length (users ex_db))"
    and "\<forall>now' new_id' h' again. uc_email again = uc_email ex_signup_carol \<longrightarrow>
               register now' new_id' h' s' again
                 = (s', Inl (HTTPException 400 ''Email already registered''))"
    by blast
  then have "\<exists>s' r. register ex_june ''c'' (\<lambda>p. p) ex_db ex_signup_carol = (s', Inr r)
         \<and> length (users s') = 3
         \<and> register ex_december ''d'' (\<lambda>p. p) s' ex_signup_carol
             = (s', Inl (HTTPException 400 ''Email already registered''))"
    using l by (intro exI [of _ s'] exI [of _ r]) simp
  with a' c' 1 show ?thesis by blast
qed

subsection \<open>Soft delete\<close>

text \<open>
  C7. A delete by the owner of a transaction succeeds, and the store after it is the
  store before it with one document replaced: a document with the requested id, owned
  by the requesting user (the requested transaction itself when ids are distinct), with
  its \<open>deleted\<close> field set to true and every other field as it was. No document is
  removed, and every successful delete has this form.
\<close>

theorem delete_is_soft:
  "(d \<in> set (transactions s) \<and> user_id d = User_id u \<longrightarrow>
      (\<exists>s'. delete_transaction s (tx_id d) u = (s', Inr ''Transaction deleted successfully'')))
   \<and> (delete_transaction s tid u = (s', Inr msg) \<longrightarrow>
      (\<exists>i<length (transactions s).
          tx_id (transactions s ! i) = tid \<and> user_id (transactions s ! i) = User_id u
        \<and> (distinct (map tx_id (transactions s)) \<longrightarrow>
              (\<forall>x\<in>set (transactions s). tx_id x = tid \<longrightarrow> x = transactions s ! i))
        \<and> transactions s' = (transactions s)[i := (transactions s ! i)\<lparr>deleted := True\<rparr>]
        \<and> length (transactions s') = length (transactions s)
        \<and> users s' = users s))"
proof (intro conjI impI)
  assume "d \<in> set (transactions s) \<and> user_id d = User_id u"
  then have "\<exists>x\<in>set (transactions s). tx_id x = tx_id d \<and> user_id x = User_id u"
    by blast
  from update_one_match [OF this, of "\<lambda>d. d\<lparr>deleted := True\<rparr>"]
  show "\<exists>s'. delete_transaction s (tx_id d) u = (s', Inr ''Transaction deleted successfully'')"
    by (auto simp: delete_transaction_def)
next
  assume r: "delete_transaction s tid u = (s', Inr msg)"
  let ?q = "\<lambda>x. tx_id x = tid \<and> user_id x = User_id u"
  have "\<exists>x\<in>set (transactions s). ?q x"
  proof (rule ccontr)
    assume "\<not> (\<exists>x\<in>set (transactions s). ?q x)"
    then have "update_one ?q (\<lambda>d. d\<lparr>deleted := True\<rparr>) (transactions s) = (transactions s, 0)"
      by (intro update_one_no_match) blast
    with r show False
      by (simp add: delete_transaction_def)
  qed
  from update_one_match [OF this, of "\<lambda>d. d\<lparr>deleted := True\<rparr>"] obtain i where
    i: "i < length (transactions s)" "?q (transactions s ! i)"
    and m: "update_one ?q (\<lambda>d. d\<lparr>deleted := True\<rparr>) (transactions s)
          = ((transactions s)[i := (transactions s ! i)\<lparr>deleted := True\<rparr>], 1)"
    by blast
  from r m have s': "s' = s\<lparr>transactions := (transactions s)[i := (transactions s ! i)\<lparr>deleted := True\<rparr>]\<rparr>"
    by (simp add: delete_transaction_def)
  have "x = transactions s ! i"
    if "distinct (map tx_id (transactions s))" "x \<in> set (transactions s)" "tx_id x = tid" for x
    using that i distinct_ids_unique [of "transactions s" x "transactions s ! i"] by simp
  with i s' show "\<exists>i<length (transactions s).
          tx_id (transactions s ! i) = tid \<and> user_id (transactions s ! i) = User_id u
        \<and> (distinct (map tx_id (transactions s)) \<longrightarrow>
              (\<forall>x\<in>set (transactions s). tx_id x = tid \<longrightarrow> x = transactions s ! i))
        \<and> transactions s' = (transactions s)[i := (transactions s ! i)\<lparr>deleted := True\<rparr>]
        \<and> length (transactions s') = length (transactions s)
        \<and> users s' = users s"
    by (intro exI [of _ i]) simp
qed

lemma ex_delete:
  "delete_transaction ex_db ''1'' ex_alice
     = (ex_db\<lparr>transactions := (transactions ex_db)[0 := (transactions ex_db ! 0)\<lparr>deleted := True\<rparr>]\<rparr>,
        Inr ''Transaction deleted successfully'')"
  by (simp add: delete_transaction_def ex_defs)

theorem delete_is_soft_witness:
  "transactions ex_db ! 0 \<in> set (transactions ex_db)
   \<and> user_id (transactions ex_db ! 0) = User_id ex_alice
   \<and> distinct (map tx_id (transactions ex_db))
   \<and> (\<exists>s'. delete_transaction ex_db ''1'' ex_alice = (s', Inr ''Transaction deleted successfully'')
         \<and> transactions s' = (transactions ex_db)[0 := (transactions ex_db ! 0)\<lparr>deleted := True\<rparr>]
         \<and> length (transactions s') = 4)"
proof -
  have a: "transactions ex_db ! 0 \<in> set (transactions ex_db)
      \<and> user_id (transactions ex_db ! 0) = User_id ex_alice"
    and b: "distinct (map tx_id (transactions ex_db))"
    and c: "tx_id (transactions ex_db ! 0) = ''1''"
    by (simp_all add: ex_defs)
  from delete_is_soft [of "transactions ex_db ! 0" ex_db ex_alice] a c
  obtain s' where
    s': "delete_transaction ex_db ''1'' ex_alice = (s', Inr ''Transaction deleted successfully'')"
    by metis
  from delete_is_soft [of _ ex_db ex_alice "''1''" s' "''Transaction deleted successfully''"] s'
  have l: "length (transactions s') = length (transactions ex_db)"
    by blast
  have "length (transactions ex_db) = 4"
    by (simp add: ex_defs)
  with a b s' l ex_delete show ?thesis
    by auto
qed

subsection \<open>Insights without expenses\<close>

lemma tx_type_doc_of: "tx_type (doc_of t) = tx_type t"
  by (simp add: doc_of_def)

lemma insights_query_total:
  "\<exists>txs. Transactions_of
            (filter (\<lambda>d. user_id d = User_id u \<and> deleted d = False
                         \<and> date_gte d (minus_days now 30)) (transactions s)) = Inr txs"
  by (rule Transactions_of_total) (auto simp: date_gte_def split: option.splits)

text \<open>
  C9. When no transaction of the user in the trailing 30 days (not deleted, dated on or
  after the start) is an expense, the insights endpoint answers, without raising, with
  the single starter tip and the projection with balance 0.
\<close>

theorem insights_without_expenses:
  assumes "\<forall>d\<in>set (transactions s).
             user_id d = User_id u \<and> \<not> deleted d \<and> date_gte d (minus_days now 30)
               \<longrightarrow> tx_type d \<noteq> ''expense''"
  shows "get_insights now s u
           = Inr \<lparr>tips = [StartTracking], projection = NoData 0 NoDataAvailable\<rparr>"
proof -
  let ?ds = "filter (\<lambda>d. user_id d = User_id u \<and> deleted d = False
                         \<and> date_gte d (minus_days now 30)) (transactions s)"
  obtain txs where t: "Transactions_of ?ds = Inr txs"
    using insights_query_total by blast
  have "filter (\<lambda>t. tx_type t = ''expense'') txs = []"
  proof (rule ccontr)
    assume "filter (\<lambda>t. tx_type t = ''expense'') txs \<noteq> []"
    then obtain x where x: "x \<in> set txs" "tx_type x = ''expense''"
      by (auto simp: filter_empty_conv)
    from Transactions_of_Inr [OF t] x(1) have "doc_of x \<in> set ?ds"
      by (metis imageI set_map)
    with assms have "tx_type (doc_of x) \<noteq> ''expense''"
      by auto
    with x(2) show False
      by (simp add: tx_type_doc_of)
  qed
  with t have "insights_expenses now s u = Inr []"
    by (simp add: insights_expenses_def)
  then show ?thesis
    by (simp add: get_insights_def)
qed

theorem insights_without_expenses_witness:
  "filter (\<lambda>d. user_id d = User_id ex_bob \<and> \<not> deleted d
                \<and> date_gte d (minus_days ex_december 30) \<and> tx_type d = ''expense'')
      (transactions ex_db) = []
   \<and> length (filter (\<lambda>d. user_id d = User_id ex_bob) (transactions ex_db)) = 1
   \<and> get_insights ex_december ex_db ex_bob
       = Inr \<lparr>tips = [StartTracking], projection = NoData 0 NoDataAvailable\<rparr>"
proof -
  have n: "\<not> date_gte (transactions ex_db ! 3) (minus_days ex_december 30)"
    by code_simp
  have a: "\<forall>d\<in>set (transactions ex_db).
      user_id d = User_id ex_bob \<and> \<not> deleted d \<and> date_gte d (minus_days ex_december 30)
        \<longrightarrow> tx_type d \<noteq> ''expense''"
    using n by (simp add: ex_db_def ex_doc_def ex_bob_def)
  then have f: "filter (\<lambda>d. user_id d = User_id ex_bob \<and> \<not> deleted d
                \<and> date_gte d (minus_days ex_december 30) \<and> tx_type d = ''expense'')
      (transactions ex_db) = []"
    by (simp only: filter_empty_conv) blast
  have l: "length (filter (\<lambda>d. user_id d = User_id ex_bob) (transactions ex_db)) = 1"
    by (simp add: ex_db_def ex_doc_def ex_bob_def)
  from insights_without_expenses [OF a] f l show ?thesis by blast
qed

subsection \<open>Updating a soft-deleted transaction\<close>

lemma find_one_Some: "find_one q xs = Some x \<Longrightarrow> x \<in> set xs \<and> q x"
  unfolding find_one_def by (induction xs) (auto split: if_splits)

lemma find_one_unique:
  assumes "x \<in> set xs" and "q x" and "\<And>y. y \<in> set xs \<Longrightarrow> q y \<Longrightarrow> y = x"
  shows "find_one q xs = Some x"
proof (cases "find_one q xs")
  case None
  with assms(1,2) show ?thesis by (auto simp: find_one_None)
next
  case (Some y)
  from find_one_Some [OF Some] assms(3) have "y = x" by blast
  with Some show ?thesis by simp
qed

lemma deleted_set_fields: "deleted (set_fields payload d) = deleted d"
  by (simp add: set_fields_def)

lemma tx_id_set_fields: "tx_id (set_fields payload d) = tx_id d"
  by (simp add: set_fields_def)

lemma update_transaction_deleted:
  "map deleted (transactions (fst (update_transaction s tid payload u)))
     = map deleted (transactions s)"
  unfolding fst_update_transaction
  by (simp add: update_one_map deleted_set_fields)

lemma post_transactions_appends:
  "take (length (transactions s)) (transactions (fst (post_transactions now new_id s body u)))
     = transactions s"
  by (simp add: post_transactions_def create_transaction_def insert_one_def Let_def
      split: sum.splits)

lemma register_transactions:
  "transactions (fst (register now new_id h s user_data)) = transactions s"
  by (simp add: register_def Let_def split: option.splits)


lemma list_update_ids:
  "i < length ts \<Longrightarrow> ts ! i = d \<Longrightarrow> map tx_id (ts[i := set_fields payload d]) = map tx_id ts"
  by (simp add: map_update tx_id_set_fields list_update_same_conv)

lemma find_updated:
  assumes "distinct (map tx_id ts)" and "i < length ts" and "ts ! i = d"
  shows "find_one (\<lambda>x. tx_id x = tx_id d) (ts[i := set_fields payload d])
           = Some (set_fields payload d)"
proof (rule find_one_unique)
  show m: "set_fields payload d \<in> set (ts[i := set_fields payload d])"
    using assms(2) by (rule set_update_memI)
  show "tx_id (set_fields payload d) = tx_id d"
    by (rule tx_id_set_fields)
  fix y assume y: "y \<in> set (ts[i := set_fields payload d])" "tx_id y = tx_id d"
  have "distinct (map tx_id (ts[i := set_fields payload d]))"
    using assms by (simp only: list_update_ids)
  from distinct_ids_unique [OF this y(1) m] y(2) show "y = set_fields payload d"
    by (simp only: tx_id_set_fields)
qed

lemma update_own_transaction:
  assumes "distinct (map tx_id (transactions s))" and "d \<in> set (transactions s)"
    and "user_id d = User_id u"
  shows "\<exists>i<length (transactions s). transactions s ! i = d
           \<and> update_transaction s (tx_id d) payload u
               = (s\<lparr>transactions := (transactions s)[i := set_fields payload d]\<rparr>,
                  Transaction_of (set_fields payload d))"
proof -
  let ?q = "\<lambda>x. tx_id x = tx_id d \<and> user_id x = User_id u"
  from assms have "\<exists>x\<in>set (transactions s). ?q x" by blast
  from update_one_match [OF this, of "set_fields payload"] obtain i where
    i: "i < length (transactions s)" "?q (transactions s ! i)"
    and m: "update_one ?q (set_fields payload) (transactions s)
              = ((transactions s)[i := set_fields payload (transactions s ! i)], 1)"
    by blast
  have "transactions s ! i \<in> set (transactions s)"
    using i(1) by (rule nth_mem)
  from distinct_ids_unique [OF assms(1) this assms(2)] i(2) have di: "transactions s ! i = d"
    by blast
  have f: "find_one (\<lambda>x. tx_id x = tx_id d) ((transactions s)[i := set_fields payload d])
      = Some (set_fields payload d)"
    using assms(1) i(1) di by (rule find_updated)
  have "update_transaction s (tx_id d) payload u
      = (s\<lparr>transactions := (transactions s)[i := set_fields payload d]\<rparr>,
         Transaction_of (set_fields payload d))"
    unfolding update_transaction_def m di by (simp add: f)
  with i(1) di show ?thesis by blast
qed


text \<open>
  What the update does to a soft-deleted transaction of its owner, in a store with
  distinct transaction ids: it matches that transaction and is not answered with 404,
  the payload's fields are written to it and its \<open>deleted\<close> flag stays true. The answer
  is the updated transaction only when the payload carries a date. No update, create or
  registration changes the \<open>deleted\<close> flag of any stored transaction.
\<close>

lemma update_keeps_deleted_flag:
  "(distinct (map tx_id (transactions s)) \<and> d \<in> set (transactions s)
      \<and> user_id d = User_id u \<and> deleted d \<longrightarrow>
      (\<exists>s' r i. update_transaction s (tx_id d) payload u = (s', r)
         \<and> r \<noteq> Inl (HTTPException 404 ''Transaction not found'')
         \<and> r = Transaction_of (set_fields payload d)
         \<and> (tc_date payload \<noteq> None \<longrightarrow> (\<exists>t. r = Inr t \<and> deleted t \<and> tx_id t = tx_id d))
         \<and> i < length (transactions s) \<and> transactions s ! i = d
         \<and> transactions s' = (transactions s)[i := set_fields payload d]
         \<and> deleted (transactions s' ! i)))
   \<and> map deleted (transactions (fst (update_transaction s tid payload u)))
       = map deleted (transactions s)
   \<and> take (length (transactions s))
        (transactions (fst (post_transactions now new_id s payload u))) = transactions s
   \<and> transactions (fst (register now new_id h s user_data)) = transactions s"
proof (intro conjI impI)
  assume a: "distinct (map tx_id (transactions s)) \<and> d \<in> set (transactions s)
      \<and> user_id d = User_id u \<and> deleted d"
  let ?d' = "set_fields payload d"
  from a update_own_transaction [of s d u payload] obtain i where
    i: "i < length (transactions s)" "transactions s ! i = d"
    and u: "update_transaction s (tx_id d) payload u
              = (s\<lparr>transactions := (transactions s)[i := ?d']\<rparr>, Transaction_of ?d')"
    by blast
  have r1: "Transaction_of ?d' \<noteq> Inl (HTTPException 404 ''Transaction not found'')"
    by (simp add: Transaction_of_def split: option.splits)
  have "deleted ?d'"
    using a by (simp add: deleted_set_fields)
  then have r2: "tc_date payload \<noteq> None \<longrightarrow>
      (\<exists>t. Transaction_of ?d' = Inr t \<and> deleted t \<and> tx_id t = tx_id d)"
    by (auto simp: Transaction_of_def set_fields_def)
  have r3: "deleted ((transactions s)[i := ?d'] ! i)"
    using i(1) \<open>deleted ?d'\<close> by simp
  show "\<exists>s' r i. update_transaction s (tx_id d) payload u = (s', r)
         \<and> r \<noteq> Inl (HTTPException 404 ''Transaction not found'')
         \<and> r = Transaction_of (set_fields payload d)
         \<and> (tc_date payload \<noteq> None \<longrightarrow> (\<exists>t. r = Inr t \<and> deleted t \<and> tx_id t = tx_id d))
         \<and> i < length (transactions s) \<and> transactions s ! i = d
         \<and> transactions s' = (transactions s)[i := set_fields payload d]
         \<and> deleted (transactions s' ! i)"
  proof (intro exI [of _ "s\<lparr>transactions := (transactions s)[i := ?d']\<rparr>"]
      exI [of _ "Transaction_of ?d'"] exI [of _ i] conjI)
    show "update_transaction s (tx_id d) payload u
        = (s\<lparr>transactions := (transactions s)[i := ?d']\<rparr>, Transaction_of ?d')"
      by (rule u)
    show "Transaction_of ?d' \<noteq> Inl (HTTPException 404 ''Transaction not found'')"
      by (rule r1)
    show "Transaction_of ?d' = Transaction_of ?d'" ..
    show "tc_date payload \<noteq> None \<longrightarrow>
        (\<exists>t. Transaction_of ?d' = Inr t \<and> deleted t \<and> tx_id t = tx_id d)"
      by (rule r2)
    show "i < length (transactions s)" by (rule i(1))
    show "transactions s ! i = d" by (rule i(2))
    show "transactions (s\<lparr>transactions := (transactions s)[i := ?d']\<rparr>)
        = (transactions s)[i := ?d']"
      by simp
    show "deleted (transactions (s\<lparr>transactions := (transactions s)[i := ?d']\<rparr>) ! i)"
      using r3 by simp
  qed
next
  show "map deleted (transactions (fst (update_transaction s tid payload u)))
       = map deleted (transactions s)"
    by (rule update_transaction_deleted)
next
  show "take (length (transactions s))
        (transactions (fst (post_transactions now new_id s payload u))) = transactions s"
    by (rule post_transactions_appends)
next
  show "transactions (fst (register now new_id h s user_data)) = transactions s"
    by (rule register_transactions)
qed

lemma update_with_date_example:
  "distinct (map tx_id (transactions ex_db))
   \<and> transactions ex_db ! 2 \<in> set (transactions ex_db)
   \<and> user_id (transactions ex_db ! 2) = User_id ex_alice
   \<and> deleted (transactions ex_db ! 2)
   \<and> (\<exists>s' t. update_transaction ex_db ''3'' (ex_payload ''expense'' 5 (Some ex_june)) ex_alice
                 = (s', Inr t)
          \<and> deleted t \<and> amount t = 5
          \<and> map deleted (transactions s') = [False, False, True, False])"
proof -
  let ?p = "ex_payload ''expense'' 5 (Some ex_june)"
  have a: "distinct (map tx_id (transactions ex_db))
      \<and> transactions ex_db ! 2 \<in> set (transactions ex_db)
      \<and> user_id (transactions ex_db ! 2) = User_id ex_alice
      \<and> deleted (transactions ex_db ! 2)"
    and i: "tx_id (transactions ex_db ! 2) = ''3''"
    and p: "tc_date ?p \<noteq> None"
    and m: "map deleted (transactions ex_db) = [False, False, True, False]"
    by (simp_all add: ex_defs)
  from update_keeps_deleted_flag [of ex_db "transactions ex_db ! 2" ex_alice ?p "''3''"] a i p
  obtain s' t where
    u: "update_transaction ex_db ''3'' ?p ex_alice = (s', Inr t)" and t: "deleted t"
    and r: "Inr t = Transaction_of (set_fields ?p (transactions ex_db ! 2))"
    by (metis (no_types, lifting))
  from update_keeps_deleted_flag [of ex_db _ ex_alice ?p "''3''"] u m
  have m': "map deleted (transactions s') = [False, False, True, False]"
    by (metis fst_conv)
  from r have "amount t = 5"
    by (simp add: Transaction_of_def set_fields_def ex_payload_def split: option.splits)
  with u t m' have "\<exists>s' t. update_transaction ex_db ''3'' ?p ex_alice = (s', Inr t)
          \<and> deleted t \<and> amount t = 5
          \<and> map deleted (transactions s') = [False, False, True, False]"
    by (intro exI [of _ s'] exI [of _ t]) simp
  with a show ?thesis by (intro conjI) simp_all
qed

text \<open>
  An update whose payload has no date is applied and then raises: the null date it
  wrote is not a datetime of the response model. \<^verbatim>\<open>create_transaction\<close> replaces a
  missing date by the clock reading; \<^verbatim>\<open>update_transaction\<close> does not.
\<close>

lemma update_without_date:
  assumes "distinct (map tx_id (transactions s))" and "d \<in> set (transactions s)"
    and "user_id d = User_id u" and "tc_date payload = None"
  shows "\<exists>i<length (transactions s). transactions s ! i = d
           \<and> update_transaction s (tx_id d) payload u
               = (s\<lparr>transactions := (transactions s)[i := set_fields payload d]\<rparr>,
                  Inl ValidationError)
           \<and> date (set_fields payload d) = None"
proof -
  have "Transaction_of (set_fields payload d) = Inl ValidationError"
    and "date (set_fields payload d) = None"
    using assms(4) by (simp_all add: Transaction_of_def set_fields_def)
  with update_own_transaction [OF assms(1,2,3), of payload] show ?thesis
    by auto
qed

text \<open>
  C10 at a concrete store: Alice owns the soft-deleted transaction 3 and sends an update
  for it whose payload passes the validators and has no date. The update matches the
  transaction and writes the payload, the \<open>deleted\<close> flag stays true, but the request
  does not succeed: the stored date is now null and building the answer raises, a server
  error (500) instead of the updated transaction.
\<close>

theorem update_without_date_raises:
  "user_id (transactions ex_db ! 2) = User_id ex_alice
   \<and> tx_id (transactions ex_db ! 2) = ''3''
   \<and> deleted (transactions ex_db ! 2)
   \<and> TransactionCreate_validate (ex_payload ''expense'' 5 None)
       = Inr (ex_payload ''expense'' 5 None)
   \<and> snd (update_transaction ex_db ''3'' (ex_payload ''expense'' 5 None) ex_alice)
       = Inl ValidationError
   \<and> response_status
        (snd (update_transaction ex_db ''3'' (ex_payload ''expense'' 5 None) ex_alice)) = 500
   \<and> map amount
        (transactions (fst (update_transaction ex_db ''3'' (ex_payload ''expense'' 5 None) ex_alice)))
       = [150, 500, 5, 70]
   \<and> map date
        (transactions (fst (update_transaction ex_db ''3'' (ex_payload ''expense'' 5 None) ex_alice)))
        ! 2 = None
   \<and> map deleted
        (transactions (fst (update_transaction ex_db ''3'' (ex_payload ''expense'' 5 None) ex_alice)))
       = [False, False, True, False]"
  by (simp add: update_transaction_def find_one_def Transaction_of_def set_fields_def
      TransactionCreate_validate_def validate_type_def validate_amount_def
      response_status_def ex_defs)

subsection \<open>The month-end projection\<close>

lemma top_category_tip_total:
  "total_spent \<noteq> 0 \<Longrightarrow>
     \<exists>ts. top_category_tip cats total_spent = Inr ts \<and> length ts \<le> 1"
  by (simp add: top_category_tip_def py_div_def Let_def split: list.splits prod.splits)

lemma days_in_month_pos: "1 \<le> days_in_month y m"
  by (simp add: days_in_month_def)

lemma last_day_of_month:
  assumes "1 \<le> month now" and "month now < 12"
  shows "replace_month_day now (month now + 1) 1 = Inr (now\<lparr>month := month now + 1, day := 1\<rparr>)"
    and "day (minus_days (now\<lparr>month := month now + 1, day := 1\<rparr>) 1)
           = days_in_month (year now) (month now)"
  using assms days_in_month_pos [of "year now" "month now + 1"]
  by (simp_all add: replace_month_day_def minus_one_day_def)

lemma month_end_projection_value:
  assumes "1 \<le> month now" and "month now < 12" and "1 \<le> day now"
  shows "month_end_projection now u total_spent
           = Inr (Projected
                    (total_spent / of_int (day now) * of_int (days_in_month (year now) (month now)))
                    (monthly_budget u
                       - total_spent / of_int (day now) * of_int (days_in_month (year now) (month now)))
                    (CurrentRate
                       (total_spent / of_int (day now) * of_int (days_in_month (year now) (month now)))))"
  using assms(3) last_day_of_month [OF assms(1,2)]
  by (simp add: month_end_projection_def Let_def)

lemma month_end_projection_december:
  "month now = 12 \<Longrightarrow> month_end_projection now u total_spent = Inl ValueError"
  by (simp add: month_end_projection_def replace_month_day_def)

lemma sum_amounts_nonneg:
  "\<forall>t\<in>set es. 0 < amount t \<Longrightarrow> 0 \<le> sum_list (map amount es)"
  by (induction es) auto

lemma sum_amounts_pos:
  "es \<noteq> [] \<Longrightarrow> \<forall>t\<in>set es. 0 < amount t \<Longrightarrow> 0 < sum_list (map amount es)"
proof (cases es)
  case Nil
  assume "es \<noteq> []"
  with Nil show ?thesis by simp
next
  case (Cons e rest)
  assume "\<forall>t\<in>set es. 0 < amount t"
  with Cons have "0 < amount e" and "\<forall>t\<in>set rest. 0 < amount t"
    by simp_all
  with sum_amounts_nonneg [of rest] Cons show ?thesis
    by simp
qed

text \<open>
  From January to November the insights endpoint does what C8 says: at most three tips,
  and a projected spend of the 30-day total divided by the day of the month, times the
  number of days of the month.
\<close>

lemma insights_projection:
  assumes "insights_expenses now s u = Inr es" and "es \<noteq> []"
    and "\<forall>t\<in>set es. 0 < amount t"
    and "1 \<le> month now" and "month now < 12" and "1 \<le> day now"
  shows "\<exists>r pb m. get_insights now s u = Inr r \<and> length (tips r) \<le> 3
           \<and> projection r
               = Projected (sum_list (map amount es) / of_int (day now)
                              * of_int (days_in_month (year now) (month now))) pb m"
proof -
  let ?total = "sum_list (map amount es)"
  have "?total \<noteq> 0"
    using sum_amounts_pos [OF assms(2,3)] by simp
  from top_category_tip_total [OF this] obtain ts where
    "top_category_tip (category_totals_loop [] es) ?total = Inr ts"
    by blast
  with assms(1,2) month_end_projection_value [OF assms(4,5,6), of u ?total]
  show ?thesis
    by (simp add: get_insights_def Let_def)
qed

text \<open>In December the date arithmetic of the projection raises.\<close>

lemma insights_raises_in_december:
  assumes "insights_expenses now s u = Inr es" and "es \<noteq> []"
    and "\<forall>t\<in>set es. 0 < amount t" and "month now = 12"
  shows "get_insights now s u = Inl ValueError"
proof -
  let ?total = "sum_list (map amount es)"
  have "?total \<noteq> 0"
    using sum_amounts_pos [OF assms(2,3)] by simp
  from top_category_tip_total [OF this] obtain ts where
    "top_category_tip (category_totals_loop [] es) ?total = Inr ts"
    by blast
  with assms(1,2) month_end_projection_december [OF assms(4), of u ?total]
  show ?thesis
    by (simp add: get_insights_def Let_def)
qed

text \<open>
  C8 at a concrete store: on 15 December 2025 Alice has one expense of 150 in the
  trailing 30 days, and the insights endpoint raises ValueError instead of answering
  with tips and a projection.
\<close>

theorem insights_december_raises:
  "get_insights ex_december ex_db_december ex_alice = Inl ValueError
   \<and> response_status (get_insights ex_december ex_db_december ex_alice) = 500"
  by code_simp

lemma ex_insights_june:
  "get_insights ex_june ex_db ex_alice
     = Inr \<lparr>tips = [TopCategory 100 ''Food'', UnderBudget 9850],
            projection = Projected 300 9700 (CurrentRate 300)\<rparr>"
  by code_simp

end
